theory Spec2Isabelle
  imports Main
begin

section \<open>Strings and characters\<close>

text \<open>
  The bot runs on Python 2: a \<open>str\<close> is a byte string, which is what a HOL
  \<open>string\<close> is. Without the LOCALE and UNICODE flags the regular-expression classes
  \<open>\w\<close> and \<open>\s\<close> are the ASCII ones, and \<open>str.lower\<close> maps \<open>A-Z\<close> to \<open>a-z\<close>.
\<close>

definition is_word :: "char \<Rightarrow> bool" where
  "is_word c =
     (let n = (of_char c :: nat)
      in (48 \<le> n \<and> n \<le> 57) \<or> (65 \<le> n \<and> n \<le> 90) \<or> n = 95 \<or> (97 \<le> n \<and> n \<le> 122))"

definition is_space :: "char \<Rightarrow> bool" where
  "is_space c = (let n = (of_char c :: nat) in (9 \<le> n \<and> n \<le> 13) \<or> n = 32)"

definition lower_char :: "char \<Rightarrow> char" where
  "lower_char c =
     (let n = (of_char c :: nat) in if 65 \<le> n \<and> n \<le> 90 then char_of (n + 32) else c)"

definition lower :: "string \<Rightarrow> string" where
  "lower s = map lower_char s"

section \<open>Regular expressions\<close>

text \<open>
  The fragment of Python's \<open>re\<close> syntax that the bot's own patterns use, as a syntax
  tree: \<open>Bol\<close> is \<open>^\<close>, \<open>Eol\<close> is \<open>$\<close>, \<open>Wb\<close> is \<open>\b\<close>, \<open>Dot\<close> is \<open>.\<close>, \<open>Space\<close> is
  \<open>\s\<close>, \<open>Opt r\<close> is \<open>r?\<close>, \<open>Star r\<close> is \<open>r*\<close>. A group \<open>(r)\<close> is its body: no
  handler of the source reads a captured group.
\<close>

datatype rx =
    Eps
  | Chr char
  | Dot
  | Space
  | Seq rx rx
  | Alt rx rx
  | Opt rx
  | Star rx
  | Bol
  | Eol
  | Wb

text \<open>
  A position in the subject is the character before it (\<open>None\<close> at the start) and the
  rest of the subject from it.
\<close>

type_synonym pos = "char option \<times> string"

definition word_before :: "pos \<Rightarrow> bool" where
  "word_before p = (case fst p of None \<Rightarrow> False | Some c \<Rightarrow> is_word c)"

definition word_after :: "pos \<Rightarrow> bool" where
  "word_after p = (case snd p of [] \<Rightarrow> False | c # _ \<Rightarrow> is_word c)"

text \<open>
  Greedy repetition: the body is tried first and must consume a character for the
  repetition to go on, so at most \<open>length (snd p)\<close> rounds are possible.
\<close>

primrec star_iter :: "(pos \<Rightarrow> pos list) \<Rightarrow> nat \<Rightarrow> pos \<Rightarrow> pos list" where
  "star_iter f 0 p = [p]"
| "star_iter f (Suc n) p =
     concat (map (\<lambda>q. if length (snd q) < length (snd p) then star_iter f n q else []) (f p))
       @ [p]"

text \<open>
  \<open>ends r ml p\<close> lists the positions where a match of \<open>r\<close> that starts at \<open>p\<close> can end,
  in the order in which Python's backtracking matcher tries them; \<open>ml\<close> is the MULTILINE
  flag.
\<close>

primrec ends :: "rx \<Rightarrow> bool \<Rightarrow> pos \<Rightarrow> pos list" where
  "ends Eps ml = (\<lambda>p. [p])"
| "ends (Chr c) ml =
     (\<lambda>p. case snd p of [] \<Rightarrow> [] | x # xs \<Rightarrow> if x = c then [(Some x, xs)] else [])"
| "ends Dot ml =
     (\<lambda>p. case snd p of [] \<Rightarrow> [] | x # xs \<Rightarrow> if x \<noteq> CHR 0x0A then [(Some x, xs)] else [])"
| "ends Space ml =
     (\<lambda>p. case snd p of [] \<Rightarrow> [] | x # xs \<Rightarrow> if is_space x then [(Some x, xs)] else [])"
| "ends (Seq a b) ml = (\<lambda>p. concat (map (ends b ml) (ends a ml p)))"
| "ends (Alt a b) ml = (\<lambda>p. ends a ml p @ ends b ml p)"
| "ends (Opt a) ml = (\<lambda>p. ends a ml p @ [p])"
| "ends (Star a) ml = (\<lambda>p. star_iter (ends a ml) (length (snd p)) p)"
| "ends Bol ml = (\<lambda>p. if fst p = None \<or> (ml \<and> fst p = Some (CHR 0x0A)) then [p] else [])"
| "ends Eol ml =
     (\<lambda>p. if snd p = [] \<or> snd p = [CHR 0x0A] \<or> (ml \<and> take 1 (snd p) = [CHR 0x0A])
           then [p] else [])"
| "ends Wb ml = (\<lambda>p. if word_before p \<noteq> word_after p then [p] else [])"

text \<open>
  \<open>re.search\<close>: the leftmost position with a match, and the first end the matcher finds
  there. A match object is modelled by its span \<open>(start, end)\<close>.
\<close>

fun search_from :: "rx \<Rightarrow> bool \<Rightarrow> char option \<Rightarrow> string \<Rightarrow> (pos \<times> pos) option" where
  "search_from r ml prev rest =
     (case ends r ml (prev, rest) of
        e # _ \<Rightarrow> Some ((prev, rest), e)
      | [] \<Rightarrow> (case rest of [] \<Rightarrow> None | x # xs \<Rightarrow> search_from r ml (Some x) xs))"

type_synonym rmatch = "nat \<times> nat"

definition re_search :: "rx \<Rightarrow> bool \<Rightarrow> string \<Rightarrow> rmatch option" where
  "re_search r ml text =
     (case search_from r ml None text of
        None \<Rightarrow> None
      | Some (s, e) \<Rightarrow> Some (length text - length (snd s), length text - length (snd e)))"

text \<open>
  \<open>re.sub(r, repl, text)\<close> with a constant replacement: the leftmost matches, not
  overlapping, are replaced from left to right. After a match that consumed text the
  scan goes on where the match ended; after an empty match it moves one character on.
  The only pattern the bot substitutes, \<open>\s.*$\<close>, never matches the empty string.
\<close>

function sub_from :: "rx \<Rightarrow> string \<Rightarrow> char option \<Rightarrow> string \<Rightarrow> string" where
  "sub_from r repl prev rest =
     (case ends r False (prev, rest) of
        [] \<Rightarrow> (case rest of [] \<Rightarrow> [] | x # xs \<Rightarrow> x # sub_from r repl (Some x) xs)
      | e # _ \<Rightarrow>
          if length (snd e) < length rest then repl @ sub_from r repl (fst e) (snd e)
          else (case rest of [] \<Rightarrow> repl | x # xs \<Rightarrow> repl @ x # sub_from r repl (Some x) xs))"
  by pat_completeness auto
termination
  by (relation "measure (\<lambda>(r, repl, prev, rest). length rest)") auto

definition re_sub :: "rx \<Rightarrow> string \<Rightarrow> string \<Rightarrow> string" where
  "re_sub r repl text = sub_from r repl None text"

text \<open>A literal word as a pattern, and the alternation \<open>a|b|c\<close> of a list of patterns.\<close>

primrec lit :: "string \<Rightarrow> rx" where
  "lit [] = Eps"
| "lit (c # cs) = Seq (Chr c) (lit cs)"

fun alts :: "rx list \<Rightarrow> rx" where
  "alts [] = Eps"
| "alts [r] = r"
| "alts (r # rs) = Alt r (alts rs)"

section \<open>The pattern registry and the resolver\<close>

text \<open>
  The part of a \<open>ChatBot\<close> object that message handling reads or writes. Times are
  microseconds on the clock that \<open>datetime.datetime.now()\<close> reads. \<open>curr_message\<close> is
  \<open>None\<close> where Python's attribute is \<open>None\<close>; the class starts it at the empty
  string. The two response tables are the lists of (pattern, template) pairs loaded
  from the YAML files, with each pattern already parsed. A name in \<open>my_names\<close> is
  spliced into a regular expression as it is, so it is a pattern too: \<open>my_names\<close> holds
  each name as the expression it denotes, a plain word \<open>w\<close> being \<open>lit w\<close>. The
  names are taken to be expressions on their own, which is what makes the joined
  pattern the alternation of the names.
\<close>

record bot =
  my_names :: "rx list"
  ignore_from :: "string list"
  prev_message :: string
  curr_message :: "string option"
  timeout :: "int option"
  silent :: bool
  startup :: "int option"
  me_responds :: "(rx \<times> string) list"
  chat_responds :: "(rx \<times> string) list"

text \<open>
  A handler is called as \<open>response(bot, m, text, user)\<close>; it may change the bot and
  returns a text or nothing. Its first argument here is the clock reading that a
  handler gets from \<open>datetime.datetime.now()\<close>.
\<close>

type_synonym handler = "int \<Rightarrow> bot \<Rightarrow> rmatch \<Rightarrow> string \<Rightarrow> string \<Rightarrow> string option \<times> bot"

record rule =
  expressions :: "rx list"
  only_for :: "string option"
  handler :: handler

text \<open>Python's truth value of an optional string: \<open>None\<close> and \<open>''\<close> are false.\<close>

definition truthy :: "string option \<Rightarrow> bool" where
  "truthy r = (case r of None \<Rightarrow> False | Some s \<Rightarrow> s \<noteq> [])"

text \<open>The inner loop of both resolvers: \<open>for exp in response.expressions\<close>.\<close>

fun try_expressions ::
  "handler \<Rightarrow> rx list \<Rightarrow> int \<Rightarrow> bot \<Rightarrow> string \<Rightarrow> string \<Rightarrow> string option \<times> bot" where
  "try_expressions h [] now b text user = (None, b)"
| "try_expressions h (e # es) now b text user =
     (case re_search e True text of
        None \<Rightarrow> try_expressions h es now b text user
      | Some m \<Rightarrow>
          (case h now b m text user of
             (r, b') \<Rightarrow> if truthy r then (r, b') else try_expressions h es now b' text user))"

fun get_response :: "rule list \<Rightarrow> int \<Rightarrow> bot \<Rightarrow> string \<Rightarrow> string \<Rightarrow> string option \<times> bot" where
  "get_response [] now b text user = (None, b)"
| "get_response (response # rest) now b text user =
     (if only_for response = None
      then (case try_expressions (handler response) (expressions response) now b text user of
              (r, b') \<Rightarrow> if truthy r then (r, b') else get_response rest now b' text user)
      else get_response rest now b text user)"

fun get_personal_response ::
  "rule list \<Rightarrow> int \<Rightarrow> bot \<Rightarrow> string \<Rightarrow> string \<Rightarrow> string \<Rightarrow> string option \<times> bot" where
  "get_personal_response [] now b text user target_user = (None, b)"
| "get_personal_response (response # rest) now b text user target_user =
     (if truthy (only_for response) \<and> lower (the (only_for response)) = lower target_user
      then (case try_expressions (handler response) (expressions response) now b text user of
              (r, b') \<Rightarrow>
                if truthy r then (r, b')
                else get_personal_response rest now b' text user target_user)
      else get_personal_response rest now b text user target_user)"

section \<open>The bot's own rules\<close>

definition minutes :: "int \<Rightarrow> int" where
  "minutes n = n * 60000000"

definition lid_text :: string where
  "lid_text = ''sorry. i'' @ [CHR 0x27] @ ''ll put a lid on it.''"

definition quiet_text :: string where
  "quiet_text = ''i'' @ [CHR 0x27] @ ''m gonna stay quiet for a bit.''"

definition start_silence :: handler where
  "start_silence now b m text user = (Some lid_text, b\<lparr>silent := True\<rparr>)"

definition end_silence :: handler where
  "end_silence now b m text user =
     (Some (''thanks, '' @ lower user), b\<lparr>silent := False, timeout := None\<rparr>)"

definition set_timeout :: handler where
  "set_timeout now b m text user =
     (Some quiet_text, b\<lparr>timeout := Some (now + minutes 10)\<rparr>)"

text \<open>The three patterns: \<open>^(be )?quiet\b\<close>, \<open>^okay,?\<close> and
  \<open>\b(that'?s )?enough\b|\btake a break\b|\bhush\b\<close>.\<close>

definition quiet_rx :: rx where
  "quiet_rx = Seq Bol (Seq (Opt (lit ''be '')) (Seq (lit ''quiet'') Wb))"

definition okay_rx :: rx where
  "okay_rx = Seq Bol (Seq (lit ''okay'') (Opt (Chr (CHR '',''))))"

definition enough_rx :: rx where
  "enough_rx =
     Alt (Seq Wb (Seq (Opt (Seq (lit ''that'') (Seq (Opt (Chr (CHR 0x27))) (lit ''s ''))))
                   (Seq (lit ''enough'') Wb)))
         (Alt (Seq Wb (Seq (lit ''take a break'') Wb))
              (Seq Wb (Seq (lit ''hush'') Wb)))"

text \<open>\<open>me_responder\<close> after the class body has run: the rules in decoration order.\<close>

definition me_responder :: "rule list" where
  "me_responder =
     [\<lparr>expressions = [quiet_rx], only_for = None, handler = start_silence\<rparr>,
      \<lparr>expressions = [okay_rx], only_for = None, handler = end_silence\<rparr>,
      \<lparr>expressions = [enough_rx], only_for = None, handler = set_timeout\<rparr>]"

section \<open>The dispatcher\<close>

text \<open>
  An incoming message: the bytes of its body (\<open>None\<close> when the stanza has no body) and
  the resource part of its sender.
\<close>

record message =
  body :: "string option"
  sender :: string

text \<open>
  \<open>str(message.getBody().decode('utf-8'))\<close> under Python 2's default ASCII codec: it
  returns the body when every byte is ASCII and raises otherwise, as it does when
  there is no body.
\<close>

definition decode_body :: "string option \<Rightarrow> string option" where
  "decode_body b =
     (case b of
        None \<Rightarrow> None
      | Some s \<Rightarrow> if list_all (\<lambda>c. (of_char c :: nat) < 128) s then Some s else None)"

text \<open>\<open>re.sub(r'\s.*$', '', msgfrom)\<close>\<close>

definition nicefrom_of :: "string \<Rightarrow> string" where
  "nicefrom_of msgfrom = re_sub (Seq Space (Seq (Star Dot) Eol)) [] msgfrom"

text \<open>
  \<open>r'\b(%s)\b' % '|'.join(self.my_names)\<close>: the names are joined by \<open>|\<close> inside one
  group between two word boundaries, with no escaping, so the group is the alternation
  of the expressions that the names denote (an empty list gives the empty group).
\<close>

definition names_rx :: "rx list \<Rightarrow> rx" where
  "names_rx names = Seq Wb (Seq (alts names) Wb)"

definition addressed :: "rx list \<Rightarrow> string \<Rightarrow> bool" where
  "addressed names msgtext = (re_search (names_rx names) False msgtext \<noteq> None)"

text \<open>
  The specification's reading of addressing, for comparison with \<open>addressed\<close>: the text
  holds the word \<open>w\<close> as a whole word when \<open>w\<close> occurs in it, character by character,
  with no word character directly before or directly after the occurrence.
\<close>

fun spec_holds_word_from :: "string \<Rightarrow> char option \<Rightarrow> string \<Rightarrow> bool" where
  "spec_holds_word_from w prev rest =
     ((take (length w) rest = w \<and> \<not> word_before (prev, rest) \<and>
       \<not> word_after (prev, drop (length w) rest)) \<or>
      (case rest of [] \<Rightarrow> False | x # xs \<Rightarrow> spec_holds_word_from w (Some x) xs))"

definition spec_holds_word :: "string \<Rightarrow> string \<Rightarrow> bool" where
  "spec_holds_word w text = spec_holds_word_from w None text"

definition update_message_state :: "bot \<Rightarrow> bot" where
  "update_message_state b =
     (if truthy (curr_message b)
      then b\<lparr>prev_message := the (curr_message b), curr_message := None\<rparr>
      else b)"

text \<open>\<open>send_to_chat\<close>: the text goes out to the room and the bookkeeping runs.\<close>

definition send_to_chat :: "string \<Rightarrow> bot \<Rightarrow> string option \<times> bot" where
  "send_to_chat out b = (Some out, update_message_state b)"

text \<open>
  The scan of \<open>me_responds\<close> gives the template of the first entry whose pattern is
  found in the text. \<open>fmt\<close> stands for \<open>str.format\<close> with one positional
  argument, which is Python's and not the bot's: it gives \<open>None\<close> where \<open>format\<close>
  raises.
\<close>

datatype error = FormatError

fun scan_table :: "(rx \<times> string) list \<Rightarrow> string \<Rightarrow> string option" where
  "scan_table [] msgtext = None"
| "scan_table ((expression, response) # rest) msgtext =
     (if re_search expression False msgtext \<noteq> None then Some response
      else scan_table rest msgtext)"

text \<open>The last two gates of the dispatcher: silence, then the timeout.\<close>

definition gates :: "int \<Rightarrow> bot \<Rightarrow> bot" where
  "gates now b =
     (if silent b then update_message_state b
      else (case timeout b of
              None \<Rightarrow> b
            | Some t \<Rightarrow> if t > now then update_message_state b else b\<lparr>timeout := None\<rparr>))"

text \<open>
  The start of a session (the head of the reconnect loop in \<open>__init__\<close>): the grace
  period ends one minute after the clock reading \<open>t0\<close>, and both tables are loaded.
\<close>

definition start_session ::
  "int \<Rightarrow> (rx \<times> string) list \<Rightarrow> (rx \<times> string) list \<Rightarrow> bot \<Rightarrow> bot" where
  "start_session t0 me chat b =
     b\<lparr>startup := Some (t0 + minutes 1), me_responds := me, chat_responds := chat\<rparr>"

text \<open>The startup test: \<open>self.startup\<close> is set and later than the clock.\<close>

definition in_grace :: "bot \<Rightarrow> int \<Rightarrow> bool" where
  "in_grace b now0 = (case startup b of None \<Rightarrow> False | Some s \<Rightarrow> s > now0)"

text \<open>
  \<open>handle_groupchat_message\<close>. \<open>now0\<close> is the clock at the startup check and \<open>now\<close>
  the clock at the later reading of the pass (in \<open>set_timeout\<close> or at the timeout
  gate). The result is what the pass sent to the room, or the exception it left with,
  and the bot after the pass.
\<close>

definition handle_groupchat_message ::
  "(string \<Rightarrow> string \<Rightarrow> string option) \<Rightarrow> int \<Rightarrow> int \<Rightarrow> message \<Rightarrow> bot
     \<Rightarrow> (error + string option) \<times> bot" where
  "handle_groupchat_message fmt now0 now msg b0 =
     (if in_grace b0 now0 then (Inr None, b0)
      else
        let b1 = b0\<lparr>startup := None\<rparr> in
        case decode_body (body msg) of
          None \<Rightarrow> (Inr None, b1)
        | Some msgbody \<Rightarrow>
            let msgfrom = sender msg;
                nicefrom = nicefrom_of msgfrom;
                msgtext = lower msgbody;
                b2 = b1\<lparr>curr_message := Some msgtext\<rparr>
            in if lower msgfrom \<in> set (ignore_from b2) then (Inr None, b2)
               else if addressed (my_names b2) msgtext
               then (case get_response me_responder now b2 msgtext nicefrom of
                       (out, b3) \<Rightarrow>
                         if truthy out
                         then (case send_to_chat (the out) b3 of (sent, b4) \<Rightarrow> (Inr sent, b4))
                         else if silent b3 then (Inr None, update_message_state b3)
                         else (case scan_table (me_responds b3) msgtext of
                                 Some response \<Rightarrow>
                                   (case fmt response nicefrom of
                                      None \<Rightarrow> (Inl FormatError, b3)
                                    | Some text \<Rightarrow>
                                        (case send_to_chat text b3 of
                                           (sent, b4) \<Rightarrow> (Inr sent, b4)))
                               | None \<Rightarrow> (Inr None, gates now b3)))
               else (Inr None, gates now b2))"

section \<open>Example data\<close>

text \<open>
  A bot called \<open>zbot\<close> that is past its startup grace, active, with empty tables; two
  handlers that answer a fixed text or decline; a rule with the patterns \<open>yo\<close> and
  \<open>hi\<close>; a message from the user \<open>Alice_Desktop\<close>; a response table with one greeting;
  and an instance of \<open>fmt\<close> that fills the field \<open>{0}\<close> and refuses every other brace.
\<close>

definition zbot :: bot where
  "zbot = \<lparr>my_names = [lit ''zbot''], ignore_from = [], prev_message = [], curr_message = Some [],
           timeout = None, silent = False, startup = None, me_responds = [],
           chat_responds = []\<rparr>"

text \<open>
  The names \<open>z.ot\<close> and \<open>a+b\<close> as the expressions they denote; \<open>a+\<close> is \<open>a\<close> followed
  by \<open>a*\<close>.
\<close>

definition zdot_rx :: rx where
  "zdot_rx = Seq (Chr (CHR ''z'')) (Seq Dot (lit ''ot''))"

definition aplusb_rx :: rx where
  "aplusb_rx = Seq (Chr (CHR ''a'')) (Seq (Star (Chr (CHR ''a''))) (Chr (CHR ''b'')))"

definition say :: "string \<Rightarrow> handler" where
  "say s now b m text user = (Some s, b)"

definition decline :: handler where
  "decline now b m text user = (None, b)"

definition hi_rule :: "string option \<Rightarrow> handler \<Rightarrow> rule" where
  "hi_rule who h = \<lparr>expressions = [lit ''yo'', lit ''hi''], only_for = who, handler = h\<rparr>"

definition from_alice :: "string \<Rightarrow> message" where
  "from_alice text = \<lparr>body = Some text, sender = ''Alice_Desktop''\<rparr>"

definition greetings :: "(rx \<times> string) list" where
  "greetings = [(lit ''hello'', ''hi {0}!'')]"

fun fill :: "string \<Rightarrow> string \<Rightarrow> string option" where
  "fill (a # b # c # rest) arg =
     (if [a, b, c] = ''{0}'' then map_option ((@) arg) (fill rest arg)
      else if a = CHR ''{'' \<or> a = CHR ''}'' then None
      else map_option ((#) a) (fill (b # c # rest) arg))"
| "fill (a # rest) arg =
     (if a = CHR ''{'' \<or> a = CHR ''}'' then None else map_option ((#) a) (fill rest arg))"
| "fill [] arg = Some []"

section \<open>Facts about the built-in rules\<close>

lemma truthy_simps [simp]: "truthy None = False" "truthy (Some s) = (s \<noteq> [])"
  by (simp_all add: truthy_def)

lemmas char_eval =
  lower_def lower_char_def char_of_def bit_Suc_0_iff is_word_def is_space_def
  word_before_def word_after_def re_search_def

lemma me_responder_response:
  "get_response me_responder now b text user =
     (if re_search quiet_rx True text \<noteq> None then (Some lid_text, b\<lparr>silent := True\<rparr>)
      else if re_search okay_rx True text \<noteq> None
      then (Some (''thanks, '' @ lower user), b\<lparr>silent := False, timeout := None\<rparr>)
      else if re_search enough_rx True text \<noteq> None
      then (Some quiet_text, b\<lparr>timeout := Some (now + minutes 10)\<rparr>)
      else (None, b))"
  by (simp add: me_responder_def start_silence_def end_silence_def set_timeout_def
      lid_text_def quiet_text_def split: option.split)

lemma update_message_state_fields [simp]:
  "silent (update_message_state b) = silent b"
  "timeout (update_message_state b) = timeout b"
  "startup (update_message_state b) = startup b"
  "my_names (update_message_state b) = my_names b"
  "ignore_from (update_message_state b) = ignore_from b"
  "me_responds (update_message_state b) = me_responds b"
  "chat_responds (update_message_state b) = chat_responds b"
  by (simp_all add: update_message_state_def)

lemma update_message_state_recorded [simp]:
  "t \<noteq> [] \<Longrightarrow> update_message_state (b\<lparr>curr_message := Some t\<rparr>)
     = b\<lparr>prev_message := t, curr_message := None\<rparr>"
  by (simp add: update_message_state_def)

section \<open>Resolver precedence\<close>

lemma try_expressions_append:
  "try_expressions h (es1 @ es2) now b t u =
     (case try_expressions h es1 now b t u of
        (r, b') \<Rightarrow> if truthy r then (r, b') else try_expressions h es2 now b' t u)"
  by (induction es1 arbitrary: b) (auto split: option.splits prod.splits)

lemma get_response_append:
  "get_response (pre @ post) now b t u =
     (case get_response pre now b t u of
        (r, b') \<Rightarrow> if truthy r then (r, b') else get_response post now b' t u)"
  by (induction pre arbitrary: b) (auto split: prod.splits)

lemma get_personal_response_append:
  "get_personal_response (pre @ post) now b t u w =
     (case get_personal_response pre now b t u w of
        (r, b') \<Rightarrow> if truthy r then (r, b') else get_personal_response post now b' t u w)"
  by (induction pre arbitrary: b) (auto split: prod.splits)

text \<open>
  C1, as stated, fails: a rule with an addressee is skipped by \<open>get_response\<close>, so a
  later rule answers although the earlier rule's pattern matches and its handler would
  give a text; and of three matching rules the first answers, not the second, although
  the second is earlier than the third.
\<close>

theorem resolver_precedence_counterexample:
  "re_search (lit ''hi'') True ''hi'' = Some (0, 2) \<and>
   say ''zero'' 0 zbot (0, 2) ''hi'' ''bob'' = (Some ''zero'', zbot) \<and>
   get_response [hi_rule (Some ''bob'') (say ''zero''), hi_rule None (say ''two'')]
     0 zbot ''hi'' ''bob'' = (Some ''two'', zbot) \<and>
   get_response [hi_rule None (say ''one''), hi_rule None (say ''two''),
                 hi_rule None (say ''three'')] 0 zbot ''hi'' ''bob'' = (Some ''one'', zbot)"
  by (simp add: re_search_def say_def hi_rule_def)

text \<open>
  C1, amended. Let \<open>R\<close> be a rule that the resolver considers (no addressee for
  \<open>get_response\<close>; the target, compared in lower case, for \<open>get_personal_response\<close>),
  let the rules before it give no text, let the patterns of \<open>R\<close> before \<open>e\<close> give no
  text, and let \<open>e\<close> match the text. Then the handler's output at that match is the
  result whenever it is non-empty, whatever rules come later; and when it is empty,
  resolution goes on with the remaining patterns of \<open>R\<close> and then with the later rules,
  from the bot as the handler left it.
\<close>

theorem resolver_precedence:
  "(only_for R = None \<and> expressions R = esa @ e # esb \<and>
    get_response pre now b T user = (rp, bp) \<and> \<not> truthy rp \<and>
    try_expressions (handler R) esa now bp T user = (rq, bq) \<and> \<not> truthy rq \<and>
    re_search e True T = Some m \<and> handler R now bq m T user = (out, bo) \<longrightarrow>
      get_response (pre @ R # post) now b T user =
        (if truthy out then (out, bo)
         else get_response (R\<lparr>expressions := esb\<rparr> # post) now bo T user)) \<and>
   (truthy (only_for R) \<and> lower (the (only_for R)) = lower target \<and>
    expressions R = esa @ e # esb \<and>
    get_personal_response pre now b T user target = (rp, bp) \<and> \<not> truthy rp \<and>
    try_expressions (handler R) esa now bp T user = (rq, bq) \<and> \<not> truthy rq \<and>
    re_search e True T = Some m \<and> handler R now bq m T user = (out, bo) \<longrightarrow>
      get_personal_response (pre @ R # post) now b T user target =
        (if truthy out then (out, bo)
         else get_personal_response (R\<lparr>expressions := esb\<rparr> # post) now bo T user target))"
  by (simp add: get_response_append get_personal_response_append try_expressions_append)

theorem resolver_precedence_witness:
  "only_for (hi_rule None (say ''one'')) = None \<and>
   expressions (hi_rule None (say ''one'')) = [lit ''yo''] @ lit ''hi'' # [] \<and>
   get_response [hi_rule (Some ''bob'') (say ''zero'')] 0 zbot ''hi'' ''al'' = (None, zbot) \<and>
   \<not> truthy None \<and>
   try_expressions (handler (hi_rule None (say ''one''))) [lit ''yo''] 0 zbot ''hi'' ''al''
     = (None, zbot) \<and>
   re_search (lit ''hi'') True ''hi'' = Some (0, 2) \<and>
   handler (hi_rule None (say ''one'')) 0 zbot (0, 2) ''hi'' ''al'' = (Some ''one'', zbot) \<and>
   get_response ([hi_rule (Some ''bob'') (say ''zero'')] @ hi_rule None (say ''one'')
                   # [hi_rule None (say ''two'')]) 0 zbot ''hi'' ''al'' = (Some ''one'', zbot) \<and>
   handler (hi_rule None decline) 0 zbot (0, 2) ''hi'' ''al'' = (None, zbot) \<and>
   get_response ([hi_rule (Some ''bob'') (say ''zero'')] @ hi_rule None decline
                   # [hi_rule None (say ''two'')]) 0 zbot ''hi'' ''al'' = (Some ''two'', zbot) \<and>
   truthy (only_for (hi_rule (Some ''Bob'') (say ''one''))) \<and>
   lower (the (only_for (hi_rule (Some ''Bob'') (say ''one'')))) = lower ''BOB'' \<and>
   get_personal_response [hi_rule None (say ''zero'')] 0 zbot ''hi'' ''al'' ''BOB''
     = (None, zbot) \<and>
   get_personal_response ([hi_rule None (say ''zero'')] @ hi_rule (Some ''Bob'') (say ''one'')
                   # [hi_rule (Some ''bob'') (say ''two'')]) 0 zbot ''hi'' ''al'' ''BOB''
     = (Some ''one'', zbot)"
  using
    resolver_precedence [where R = "hi_rule None (say ''one'')" and esa = "[lit ''yo'']"
      and e = "lit ''hi''" and esb = "[]" and pre = "[hi_rule (Some ''bob'') (say ''zero'')]"
      and now = 0 and b = zbot and T = "''hi''" and user = "''al''" and rp = None
      and bp = zbot and rq = None and bq = zbot and m = "(0, 2)" and out = "Some ''one''"
      and bo = zbot and post = "[hi_rule None (say ''two'')]"]
    resolver_precedence [where R = "hi_rule None decline" and esa = "[lit ''yo'']"
      and e = "lit ''hi''" and esb = "[]" and pre = "[hi_rule (Some ''bob'') (say ''zero'')]"
      and now = 0 and b = zbot and T = "''hi''" and user = "''al''" and rp = None
      and bp = zbot and rq = None and bq = zbot and m = "(0, 2)" and out = None
      and bo = zbot and post = "[hi_rule None (say ''two'')]"]
    resolver_precedence [where R = "hi_rule (Some ''Bob'') (say ''one'')" and esa = "[lit ''yo'']"
      and e = "lit ''hi''" and esb = "[]" and pre = "[hi_rule None (say ''zero'')]"
      and now = 0 and b = zbot and T = "''hi''" and user = "''al''" and rp = None
      and bp = zbot and rq = None and bq = zbot and m = "(0, 2)" and out = "Some ''one''"
      and bo = zbot and post = "[hi_rule (Some ''bob'') (say ''two'')]" and target = "''BOB''"]
  by (simp add: char_eval say_def decline_def hi_rule_def)

section \<open>Startup grace\<close>

text \<open>
  C6. A session starts with the grace period ending one minute after its start. A
  group-chat message handled while the clock is before that end is discarded whatever
  it holds: nothing is sent and the bot is left exactly as it was, so \<open>curr_message\<close>,
  \<open>prev_message\<close>, \<open>silent\<close> and \<open>timeout\<close> are unchanged.
\<close>

theorem startup_grace_discards:
  "startup (start_session t0 me chat b0) = Some (t0 + minutes 1) \<and>
   (startup b = Some (t0 + minutes 1) \<and> now0 < t0 + minutes 1 \<longrightarrow>
      handle_groupchat_message fmt now0 now msg b = (Inr None, b))"
  by (simp add: start_session_def handle_groupchat_message_def in_grace_def)

theorem startup_grace_discards_witness:
  "startup (start_session 0 [] [] zbot) = Some (0 + minutes 1) \<and>
   (59999999::int) < 0 + minutes 1 \<and>
   handle_groupchat_message fill 59999999 59999999 (from_alice ''quiet zbot'')
     (start_session 0 [] [] zbot) = (Inr None, start_session 0 [] [] zbot)"
  using startup_grace_discards [of 0 "[]" "[]" zbot "start_session 0 [] [] zbot" 59999999
      fill 59999999 "from_alice ''quiet zbot''"]
  by (simp add: start_session_def minutes_def)

section \<open>Malformed input\<close>

text \<open>
  C8. A message whose body cannot be decoded as text (no body, or a byte outside
  ASCII) is dropped: nothing is sent, and \<open>curr_message\<close>, \<open>prev_message\<close>, \<open>silent\<close>
  and \<open>timeout\<close> are what they were.
\<close>

theorem undecodable_dropped:
  "decode_body (body msg) = None \<Longrightarrow>
     fst (handle_groupchat_message fmt now0 now msg b) = Inr None \<and>
     curr_message (snd (handle_groupchat_message fmt now0 now msg b)) = curr_message b \<and>
     prev_message (snd (handle_groupchat_message fmt now0 now msg b)) = prev_message b \<and>
     silent (snd (handle_groupchat_message fmt now0 now msg b)) = silent b \<and>
     timeout (snd (handle_groupchat_message fmt now0 now msg b)) = timeout b"
  by (simp add: handle_groupchat_message_def)

theorem undecodable_dropped_witness:
  "decode_body (body \<lparr>body = Some [CHR ''z'', CHR 0xC3, CHR 0xA9], sender = ''Bob''\<rparr>) = None \<and>
   fst (handle_groupchat_message fill 5 5
          \<lparr>body = Some [CHR ''z'', CHR 0xC3, CHR 0xA9], sender = ''Bob''\<rparr> zbot) = Inr None \<and>
   curr_message (snd (handle_groupchat_message fill 5 5
          \<lparr>body = Some [CHR ''z'', CHR 0xC3, CHR 0xA9], sender = ''Bob''\<rparr> zbot)) = Some [] \<and>
   decode_body (body \<lparr>body = None, sender = ''Bob''\<rparr>) = None \<and>
   fst (handle_groupchat_message fill 5 5 \<lparr>body = None, sender = ''Bob''\<rparr> zbot) = Inr None"
  using undecodable_dropped [of "\<lparr>body = Some [CHR ''z'', CHR 0xC3, CHR 0xA9], sender = ''Bob''\<rparr>"
      fill 5 5 zbot]
    undecodable_dropped [of "\<lparr>body = None, sender = ''Bob''\<rparr>" fill 5 5 zbot]
  by (simp add: decode_body_def zbot_def)

section \<open>Messages that are not addressed\<close>

lemma in_grace_chat [simp]: "in_grace (b\<lparr>chat_responds := tbl\<rparr>) now0 = in_grace b now0"
  by (simp add: in_grace_def)

text \<open>
  A name is a pattern: \<open>\b(z.ot)\b\<close> is found in \<open>okay zbot\<close>, at the span of \<open>zbot\<close>,
  and \<open>\b(a+b)\b\<close> is not found in \<open>okay a+b\<close>.
\<close>

lemma names_are_patterns:
  "re_search (names_rx [zdot_rx]) False ''okay zbot'' = Some (5, 9)"
  "\<not> addressed [aplusb_rx] ''okay a+b''"
  by (simp_all add: addressed_def names_rx_def zdot_rx_def aplusb_rx_def char_eval)

text \<open>
  C5, as stated, fails: a name is used as a pattern, not as a word. With the single name
  \<open>z.ot\<close> the body \<open>quiet zbot\<close> does not hold \<open>z.ot\<close> as a whole word, yet the pattern
  \<open>\b(z.ot)\b\<close> is found in it, the message takes the addressed path and the quiet rule
  answers.
\<close>

theorem unaddressed_counterexample:
  "\<not> spec_holds_word ''z.ot'' (lower ''quiet zbot'') \<and>
   addressed [zdot_rx] (lower ''quiet zbot'') \<and>
   handle_groupchat_message fill 5 5 (from_alice ''quiet zbot'') (zbot\<lparr>my_names := [zdot_rx]\<rparr>) =
     (Inr (Some lid_text),
      zbot\<lparr>my_names := [zdot_rx], silent := True, prev_message := ''quiet zbot'',
           curr_message := None\<rparr>)"
  by (simp add: spec_holds_word_def zdot_rx_def zbot_def from_alice_def in_grace_def
      decode_body_def handle_groupchat_message_def addressed_def names_rx_def
      me_responder_response quiet_rx_def send_to_chat_def update_message_state_def lid_text_def
      char_eval)

text \<open>
  C5, amended. A message in whose lower-cased body the addressing pattern
  \<open>\b(name|...|name)\<close>\<open>\b\<close> is not found gets no reply, and the generic table is not
  consulted: with any other \<open>chat_responds\<close> the pass still sends nothing and leaves the
  same bot.
\<close>

theorem unaddressed_no_reply:
  "decode_body (body msg) = Some t \<Longrightarrow> \<not> addressed (my_names b) (lower t) \<Longrightarrow>
     fst (handle_groupchat_message fmt now0 now msg b) = Inr None \<and>
     handle_groupchat_message fmt now0 now msg (b\<lparr>chat_responds := tbl\<rparr>) =
       (Inr None, (snd (handle_groupchat_message fmt now0 now msg b))\<lparr>chat_responds := tbl\<rparr>)"
  by (simp add: handle_groupchat_message_def Let_def gates_def update_message_state_def
      split: option.split)

theorem unaddressed_no_reply_witness:
  "decode_body (body \<lparr>body = Some ''hello everyone'', sender = ''Bob''\<rparr>) = Some ''hello everyone'' \<and>
   \<not> addressed (my_names zbot) (lower ''hello everyone'') \<and>
   fst (handle_groupchat_message fill 5 5 \<lparr>body = Some ''hello everyone'', sender = ''Bob''\<rparr> zbot)
     = Inr None \<and>
   fst (handle_groupchat_message fill 5 5 \<lparr>body = Some ''hello everyone'', sender = ''Bob''\<rparr>
     (zbot\<lparr>chat_responds := [(lit ''hello'', ''hi {0}!'')]\<rparr>)) = Inr None"
  using unaddressed_no_reply [of "\<lparr>body = Some ''hello everyone'', sender = ''Bob''\<rparr>"
      "''hello everyone''" zbot fill 5 5 "[(lit ''hello'', ''hi {0}!'')]"]
  by (simp add: decode_body_def zbot_def addressed_def names_rx_def char_eval)

section \<open>A processed message\<close>

lemma truthy_the [simp]: "truthy r \<Longrightarrow> Some (the r) = r"
  by (cases r) simp_all

text \<open>
  A message that is past the startup grace, decodes and comes from a sender who is not
  ignored reaches the addressing test.
\<close>

lemma handle_processed:
  assumes "\<not> in_grace b now0" and "decode_body (body msg) = Some t"
    and "lower (sender msg) \<notin> set (ignore_from b)"
  shows "handle_groupchat_message fmt now0 now msg b =
     (if addressed (my_names b) (lower t)
      then (case get_response me_responder now
                   (b\<lparr>startup := None, curr_message := Some (lower t)\<rparr>)
                   (lower t) (nicefrom_of (sender msg)) of
              (out, b3) \<Rightarrow>
                if truthy out then (Inr out, update_message_state b3)
                else if silent b3 then (Inr None, update_message_state b3)
                else (case scan_table (me_responds b3) (lower t) of
                        Some response \<Rightarrow>
                          (case fmt response (nicefrom_of (sender msg)) of
                             None \<Rightarrow> (Inl FormatError, b3)
                           | Some text \<Rightarrow> (Inr (Some text), update_message_state b3))
                      | None \<Rightarrow> (Inr None, gates now b3)))
      else (Inr None, gates now (b\<lparr>startup := None, curr_message := Some (lower t)\<rparr>)))"
  using assms
  by (simp add: handle_groupchat_message_def Let_def send_to_chat_def
      split: prod.split option.split)

section \<open>Ignored senders\<close>

text \<open>
  C9, as stated, fails: the text is recorded before the sender is checked, so a message
  from an ignored sender changes \<open>curr_message\<close>.
\<close>

theorem ignored_sender_counterexample:
  "lower (sender (from_alice ''hello'')) \<in> set (ignore_from (zbot\<lparr>ignore_from := [''alice_desktop'']\<rparr>)) \<and>
   curr_message (zbot\<lparr>ignore_from := [''alice_desktop'']\<rparr>) = Some [] \<and>
   curr_message (snd (handle_groupchat_message fill 5 5 (from_alice ''hello'')
      (zbot\<lparr>ignore_from := [''alice_desktop'']\<rparr>))) = Some ''hello''"
  by (simp add: handle_groupchat_message_def from_alice_def zbot_def in_grace_def decode_body_def
     char_eval)

text \<open>
  C9, amended. A message from an ignored sender gets no reply and leaves
  \<open>prev_message\<close>, \<open>silent\<close> and \<open>timeout\<close> as they were; when it is past the startup
  grace and its body decodes, \<open>curr_message\<close> becomes its lower-cased body.
\<close>

theorem ignored_sender_recorded:
  "lower (sender msg) \<in> set (ignore_from b) \<Longrightarrow>
     fst (handle_groupchat_message fmt now0 now msg b) = Inr None \<and>
     prev_message (snd (handle_groupchat_message fmt now0 now msg b)) = prev_message b \<and>
     silent (snd (handle_groupchat_message fmt now0 now msg b)) = silent b \<and>
     timeout (snd (handle_groupchat_message fmt now0 now msg b)) = timeout b \<and>
     curr_message (snd (handle_groupchat_message fmt now0 now msg b)) =
       (if in_grace b now0 then curr_message b
        else case decode_body (body msg) of
               None \<Rightarrow> curr_message b
             | Some t \<Rightarrow> Some (lower t))"
  by (simp add: handle_groupchat_message_def Let_def split: option.split)

theorem ignored_sender_recorded_witness:
  "lower (sender (from_alice ''Hello'')) \<in> set (ignore_from (zbot\<lparr>ignore_from := [''alice_desktop'']\<rparr>)) \<and>
   fst (handle_groupchat_message fill 5 5 (from_alice ''Hello'')
      (zbot\<lparr>ignore_from := [''alice_desktop'']\<rparr>)) = Inr None \<and>
   curr_message (snd (handle_groupchat_message fill 5 5 (from_alice ''Hello'')
      (zbot\<lparr>ignore_from := [''alice_desktop'']\<rparr>))) = Some ''hello''"
  using ignored_sender_recorded [of "from_alice ''Hello''" "zbot\<lparr>ignore_from := [''alice_desktop'']\<rparr>"
      fill 5 5]
  by (simp add: from_alice_def zbot_def in_grace_def decode_body_def char_eval)

section \<open>Bookkeeping of the current message\<close>

text \<open>
  The last exit of the dispatcher: a processed message that is not addressed, with the
  bot neither silenced nor in a timeout, ends the pass with the text still in
  \<open>curr_message\<close>.
\<close>

lemma fall_through_unshifted:
  assumes "\<not> in_grace b now0" and "decode_body (body msg) = Some t"
    and "lower (sender msg) \<notin> set (ignore_from b)"
    and "\<not> addressed (my_names b) (lower t)" and "\<not> silent b" and "timeout b = None"
  shows "handle_groupchat_message fmt now0 now msg b =
     (Inr None, b\<lparr>startup := None, curr_message := Some (lower t)\<rparr>)"
  using assms by (simp add: handle_processed gates_def)

text \<open>
  C7, as stated, fails: the pass for an ignored sender records the text and returns
  without the bookkeeping, so \<open>curr_message\<close> still holds the text and \<open>prev_message\<close>
  is the old one.
\<close>

theorem shift_counterexample:
  "decode_body (body \<lparr>body = Some ''zbot hello'', sender = ''Bob''\<rparr>) = Some ''zbot hello'' \<and>
   handle_groupchat_message fill 5 5 \<lparr>body = Some ''zbot hello'', sender = ''Bob''\<rparr>
     (zbot\<lparr>ignore_from := [''bob''], prev_message := ''before''\<rparr>)
   = (Inr None, zbot\<lparr>ignore_from := [''bob''], prev_message := ''before'',
                     curr_message := Some ''zbot hello''\<rparr>)"
  by (simp add: handle_groupchat_message_def zbot_def in_grace_def decode_body_def
     char_eval)

text \<open>
  C7, amended. For a message that is past the startup grace, decodes to a non-empty
  text and comes from a sender who is not ignored: at the end of a pass that sent a
  reply, or that sent nothing while the bot was silenced or inside an unexpired
  timeout, \<open>curr_message\<close> is cleared and \<open>prev_message\<close> holds the lower-cased text.
\<close>

theorem shift_after_send_or_gate:
  assumes grace: "\<not> in_grace b now0"
    and dec: "decode_body (body msg) = Some t"
    and ne: "lower t \<noteq> []"
    and ign: "lower (sender msg) \<notin> set (ignore_from b)"
    and path: "(\<exists>x. fst (handle_groupchat_message fmt now0 now msg b) = Inr (Some x)) \<or>
       (fst (handle_groupchat_message fmt now0 now msg b) = Inr None \<and>
          (silent b \<or> (\<exists>e. timeout b = Some e \<and> now < e)))"
  shows "curr_message (snd (handle_groupchat_message fmt now0 now msg b)) = None \<and>
     prev_message (snd (handle_groupchat_message fmt now0 now msg b)) = lower t"
proof -
  let ?b2 = "b\<lparr>startup := None, curr_message := Some (lower t)\<rparr>"
  let ?tx = "lower t"
  note h = handle_processed [OF grace dec ign, of fmt now]
  show ?thesis
  proof (cases "addressed (my_names b) ?tx")
    case False
    then have r: "handle_groupchat_message fmt now0 now msg b = (Inr None, gates now ?b2)"
      using h by simp
    from path r have "silent b \<or> (\<exists>e. timeout b = Some e \<and> now < e)"
      by simp
    then show ?thesis
      using r ne by (auto simp: gates_def update_message_state_def)
  next
    case True
    show ?thesis
    proof (cases "re_search quiet_rx True ?tx \<noteq> None")
      case True
      with \<open>addressed (my_names b) ?tx\<close> h ne show ?thesis
        by (simp add: me_responder_response lid_text_def update_message_state_def)
    next
      case q: False
      show ?thesis
      proof (cases "re_search okay_rx True ?tx \<noteq> None")
        case True
        with q \<open>addressed (my_names b) ?tx\<close> h ne show ?thesis
          by (simp add: me_responder_response update_message_state_def)
      next
        case o: False
        show ?thesis
        proof (cases "re_search enough_rx True ?tx \<noteq> None")
          case True
          with q o \<open>addressed (my_names b) ?tx\<close> h ne show ?thesis
            by (simp add: me_responder_response quiet_text_def update_message_state_def)
        next
          case e: False
          from q o e \<open>addressed (my_names b) ?tx\<close> h
          have r: "handle_groupchat_message fmt now0 now msg b =
              (if silent b then (Inr None, update_message_state ?b2)
               else (case scan_table (me_responds b) ?tx of
                        Some response \<Rightarrow>
                          (case fmt response (nicefrom_of (sender msg)) of
                             None \<Rightarrow> (Inl FormatError, ?b2)
                           | Some text \<Rightarrow> (Inr (Some text), update_message_state ?b2))
                      | None \<Rightarrow> (Inr None, gates now ?b2)))"
            by (simp add: me_responder_response)
          show ?thesis
          proof (cases "silent b")
            case True
            with r ne show ?thesis by (simp add: update_message_state_def)
          next
            case s: False
            show ?thesis
            proof (cases "scan_table (me_responds b) ?tx")
              case None
              with r s have r': "handle_groupchat_message fmt now0 now msg b
                  = (Inr None, gates now ?b2)"
                by simp
              with path s have "\<exists>e. timeout b = Some e \<and> now < e" by simp
              with r' s ne show ?thesis
                by (auto simp: gates_def update_message_state_def)
            next
              case (Some response)
              show ?thesis
              proof (cases "fmt response (nicefrom_of (sender msg))")
                case None
                with r s Some path show ?thesis by simp
              next
                case (Some reply)
                with r s \<open>scan_table (me_responds b) ?tx = Some response\<close> ne
                show ?thesis by (simp add: update_message_state_def)
              qed
            qed
          qed
        qed
      qed
    qed
  qed
qed

theorem shift_after_send_or_gate_witness:
  "\<not> in_grace (zbot\<lparr>silent := True\<rparr>) 5 \<and>
   decode_body (body (from_alice ''Hello all'')) = Some ''Hello all'' \<and>
   lower ''Hello all'' \<noteq> [] \<and>
   lower (sender (from_alice ''Hello all'')) \<notin> set (ignore_from (zbot\<lparr>silent := True\<rparr>)) \<and>
   fst (handle_groupchat_message fill 5 5 (from_alice ''Hello all'') (zbot\<lparr>silent := True\<rparr>))
     = Inr None \<and>
   silent (zbot\<lparr>silent := True\<rparr>) \<and>
   curr_message (snd (handle_groupchat_message fill 5 5 (from_alice ''Hello all'')
     (zbot\<lparr>silent := True\<rparr>))) = None \<and>
   prev_message (snd (handle_groupchat_message fill 5 5 (from_alice ''Hello all'')
     (zbot\<lparr>silent := True\<rparr>))) = ''hello all''"
  using shift_after_send_or_gate [of "zbot\<lparr>silent := True\<rparr>" 5 "from_alice ''Hello all''"
      "''Hello all''" fill 5]
  by (simp add: zbot_def from_alice_def in_grace_def decode_body_def handle_groupchat_message_def
      gates_def addressed_def names_rx_def char_eval)

section \<open>No configured names\<close>

lemma ends_no_names:
  "ends (names_rx []) ml p = (if word_before p \<noteq> word_after p then [p] else [])"
  by (simp add: names_rx_def)

lemma search_boundary:
  "(\<exists>c \<in> set rest. is_word c) \<or> word_before (prev, rest) \<Longrightarrow>
     search_from (names_rx []) ml prev rest \<noteq> None"
proof (induction rest arbitrary: prev)
  case Nil
  then show ?case
    by (subst search_from.simps) (simp add: ends_no_names word_after_def)
next
  case (Cons x xs)
  show ?case
  proof (cases "word_before (prev, x # xs) \<noteq> word_after (prev, x # xs)")
    case True
    then show ?thesis
      by (subst search_from.simps) (simp add: ends_no_names)
  next
    case False
    then have same: "word_before (prev, x # xs) = is_word x"
      by (simp add: word_after_def)
    have "(\<exists>c \<in> set xs. is_word c) \<or> word_before (Some x, xs)"
    proof (cases "is_word x")
      case True
      then show ?thesis by (simp add: word_before_def)
    next
      case False
      with same Cons.prems show ?thesis by (auto simp: word_before_def)
    qed
    then have "search_from (names_rx []) ml (Some x) xs \<noteq> None"
      by (rule Cons.IH)
    with False show ?thesis
      by (subst search_from.simps) (simp add: ends_no_names)
  qed
qed

lemma is_word_lower_char: "is_word (lower_char c) = is_word c"
  by (auto simp: is_word_def lower_char_def Let_def)

text \<open>
  C10. With an empty list of names the addressing pattern is \<open>\b()\b\<close>, and every body
  that holds a word character is classified as addressed; such a message, when it is
  processed, takes the addressed path: the registry first, then the silence test, then
  the \<open>me_responds\<close> table.
\<close>

theorem no_names_addressed:
  "(\<exists>c \<in> set t. is_word c) \<Longrightarrow>
     addressed [] (lower t) \<and>
     (my_names b = [] \<and> \<not> in_grace b now0 \<and> decode_body (body msg) = Some t \<and>
      lower (sender msg) \<notin> set (ignore_from b) \<longrightarrow>
        handle_groupchat_message fmt now0 now msg b =
          (case get_response me_responder now (b\<lparr>startup := None, curr_message := Some (lower t)\<rparr>)
                  (lower t) (nicefrom_of (sender msg)) of
             (out, b3) \<Rightarrow>
               if truthy out then (Inr out, update_message_state b3)
               else if silent b3 then (Inr None, update_message_state b3)
               else (case scan_table (me_responds b3) (lower t) of
                       Some response \<Rightarrow>
                         (case fmt response (nicefrom_of (sender msg)) of
                            None \<Rightarrow> (Inl FormatError, b3)
                          | Some text \<Rightarrow> (Inr (Some text), update_message_state b3))
                     | None \<Rightarrow> (Inr None, gates now b3))))"
proof -
  assume w: "\<exists>c \<in> set t. is_word c"
  then have "\<exists>c \<in> set (lower t). is_word c"
    by (auto simp: lower_def is_word_lower_char)
  then have "search_from (names_rx []) False None (lower t) \<noteq> None"
    by (intro search_boundary) simp
  then have a: "addressed [] (lower t)"
    by (auto simp: addressed_def re_search_def)
  show ?thesis
  proof (intro conjI impI)
    show "addressed [] (lower t)" by (rule a)
  next
    assume h: "my_names b = [] \<and> \<not> in_grace b now0 \<and> decode_body (body msg) = Some t \<and>
      lower (sender msg) \<notin> set (ignore_from b)"
    then have "\<not> in_grace b now0" "decode_body (body msg) = Some t"
      "lower (sender msg) \<notin> set (ignore_from b)" "addressed (my_names b) (lower t)"
      using a by simp_all
    then show "handle_groupchat_message fmt now0 now msg b =
          (case get_response me_responder now (b\<lparr>startup := None, curr_message := Some (lower t)\<rparr>)
                  (lower t) (nicefrom_of (sender msg)) of
             (out, b3) \<Rightarrow>
               if truthy out then (Inr out, update_message_state b3)
               else if silent b3 then (Inr None, update_message_state b3)
               else (case scan_table (me_responds b3) (lower t) of
                       Some response \<Rightarrow>
                         (case fmt response (nicefrom_of (sender msg)) of
                            None \<Rightarrow> (Inl FormatError, b3)
                          | Some text \<Rightarrow> (Inr (Some text), update_message_state b3))
                     | None \<Rightarrow> (Inr None, gates now b3)))"
      by (simp add: handle_processed)
  qed
qed

theorem no_names_addressed_witness:
  "(\<exists>c \<in> set ''Quiet!''. is_word c) \<and> addressed [] (lower ''Quiet!'') \<and>
   my_names (zbot\<lparr>my_names := []\<rparr>) = [] \<and> \<not> in_grace (zbot\<lparr>my_names := []\<rparr>) 5 \<and>
   decode_body (body (from_alice ''Quiet!'')) = Some ''Quiet!'' \<and>
   lower (sender (from_alice ''Quiet!'')) \<notin> set (ignore_from (zbot\<lparr>my_names := []\<rparr>)) \<and>
   handle_groupchat_message fill 5 5 (from_alice ''Quiet!'') (zbot\<lparr>my_names := []\<rparr>) =
     (Inr (Some lid_text),
      zbot\<lparr>my_names := [], prev_message := ''quiet!'', curr_message := None, silent := True\<rparr>)"
  using no_names_addressed [of "''Quiet!''" "zbot\<lparr>my_names := []\<rparr>" 5 "from_alice ''Quiet!''"
      fill 5]
  by (simp add: zbot_def from_alice_def in_grace_def decode_body_def me_responder_response
      quiet_rx_def lid_text_def update_message_state_def addressed_def names_rx_def char_eval)

section \<open>The quiet and okay commands\<close>

lemma nicefrom_alice: "nicefrom_of ''Alice_Desktop'' = ''Alice_Desktop''"
  by (simp add: nicefrom_of_def re_sub_def char_eval)

text \<open>
  C4, as stated, fails: the patterns of the two commands are anchored at the start of
  a line, so \<open>zbot quiet\<close> matches no rule, gets no reply and leaves the bot active, and
  \<open>zbot okay\<close> does not end a silence.
\<close>

theorem scenario_counterexample:
  "my_names zbot = [lit ''zbot''] \<and> \<not> silent zbot \<and> timeout zbot = None \<and> \<not> in_grace zbot 5 \<and>
   handle_groupchat_message fill 5 5 (from_alice ''zbot quiet'') zbot =
     (Inr None, zbot\<lparr>curr_message := Some ''zbot quiet''\<rparr>) \<and>
   handle_groupchat_message fill 6 6 (from_alice ''zbot okay'') (zbot\<lparr>silent := True\<rparr>) =
     (Inr None, zbot\<lparr>silent := True, prev_message := ''zbot okay'', curr_message := None\<rparr>)"
  by (simp add: zbot_def from_alice_def in_grace_def decode_body_def handle_groupchat_message_def
      gates_def addressed_def names_rx_def me_responder_response quiet_rx_def okay_rx_def
      enough_rx_def update_message_state_def nicefrom_alice char_eval)

text \<open>
  C4, amended. With the names \<open>[zbot]\<close>, past the startup grace, the message
  \<open>quiet zbot\<close> from \<open>Alice_Desktop\<close> is answered \<open>sorry. i'll put a lid on it.\<close> and
  silences the bot; the next message \<open>okay zbot\<close> is answered
  \<open>thanks, alice_desktop\<close> and the bot is active again, with no timeout.
\<close>

theorem scenario_command_first:
  "my_names b = [lit ''zbot''] \<Longrightarrow> \<not> in_grace b now0 \<Longrightarrow>
   ''alice_desktop'' \<notin> set (ignore_from b) \<Longrightarrow>
   b' = b\<lparr>startup := None, prev_message := ''quiet zbot'', curr_message := None,
          silent := True\<rparr> \<Longrightarrow>
     handle_groupchat_message fmt now0 now (from_alice ''quiet zbot'') b =
       (Inr (Some lid_text), b') \<and>
     silent b' \<and>
     handle_groupchat_message fmt now1 now2 (from_alice ''okay zbot'') b' =
       (Inr (Some ''thanks, alice_desktop''),
        b'\<lparr>prev_message := ''okay zbot'', silent := False, timeout := None\<rparr>)"
  by (simp add: from_alice_def in_grace_def decode_body_def handle_groupchat_message_def
      addressed_def names_rx_def me_responder_response quiet_rx_def okay_rx_def
      send_to_chat_def lid_text_def nicefrom_alice update_message_state_def char_eval)

theorem scenario_command_first_witness:
  "my_names zbot = [lit ''zbot''] \<and> \<not> in_grace zbot 5 \<and>
   ''alice_desktop'' \<notin> set (ignore_from zbot) \<and>
   handle_groupchat_message fill 5 5 (from_alice ''quiet zbot'') zbot =
     (Inr (Some lid_text), zbot\<lparr>startup := None, prev_message := ''quiet zbot'',
        curr_message := None, silent := True\<rparr>) \<and>
   handle_groupchat_message fill 6 6 (from_alice ''okay zbot'')
     (zbot\<lparr>startup := None, prev_message := ''quiet zbot'', curr_message := None,
           silent := True\<rparr>) =
     (Inr (Some ''thanks, alice_desktop''),
      zbot\<lparr>startup := None, prev_message := ''okay zbot'', curr_message := None,
           silent := False, timeout := None\<rparr>)"
  using scenario_command_first [of zbot 5 "zbot\<lparr>startup := None, prev_message := ''quiet zbot'',
      curr_message := None, silent := True\<rparr>" fill 5 6 6]
  by (simp add: zbot_def in_grace_def)

section \<open>The silence gate\<close>

lemma in_grace_me [simp]: "in_grace (b\<lparr>me_responds := ta\<rparr>) now0 = in_grace b now0"
  by (simp add: in_grace_def)

lemma silenced_pass:
  assumes "silent b" and "decode_body (body msg) = Some t"
    and "re_search okay_rx True (lower t) = None"
  shows "handle_groupchat_message fmt now0 now msg b =
     (if in_grace b now0 then (Inr None, b)
      else if lower (sender msg) \<in> set (ignore_from b)
      then (Inr None, b\<lparr>startup := None, curr_message := Some (lower t)\<rparr>)
      else if addressed (my_names b) (lower t) \<and> re_search quiet_rx True (lower t) \<noteq> None
      then (Inr (Some lid_text),
            update_message_state (b\<lparr>startup := None, curr_message := Some (lower t)\<rparr>))
      else if addressed (my_names b) (lower t) \<and> re_search enough_rx True (lower t) \<noteq> None
      then (Inr (Some quiet_text),
            update_message_state (b\<lparr>startup := None, curr_message := Some (lower t),
               timeout := Some (now + minutes 10)\<rparr>))
      else (Inr None,
            update_message_state (b\<lparr>startup := None, curr_message := Some (lower t)\<rparr>)))"
  using assms
  by (simp add: handle_groupchat_message_def Let_def me_responder_response send_to_chat_def
      gates_def lid_text_def quiet_text_def update_message_state_def)

lemma zbot_fields:
  "my_names zbot = [lit ''zbot'']" "ignore_from zbot = []" "startup zbot = None"
  "silent zbot = False" "timeout zbot = None"
  by (simp_all add: zbot_def)

lemma from_alice_fields:
  "body (from_alice x) = Some x" "sender (from_alice x) = ''Alice_Desktop''"
  by (simp_all add: from_alice_def)

lemma eval_hello_silenced:
  "handle_groupchat_message fill 5 5 (from_alice ''Hello zbot'')
       (zbot\<lparr>silent := True, me_responds := greetings\<rparr>) =
     (Inr None, zbot\<lparr>silent := True, me_responds := greetings,
                     prev_message := ''hello zbot'', curr_message := None\<rparr>)"
  by (simp add: zbot_def from_alice_def in_grace_def decode_body_def handle_groupchat_message_def
      addressed_def names_rx_def me_responder_response quiet_rx_def okay_rx_def enough_rx_def
      update_message_state_def char_eval)

lemma eval_okay_silenced:
  "handle_groupchat_message fill 5 5 (from_alice ''Okay, zbot'')
       (zbot\<lparr>silent := True, me_responds := greetings\<rparr>) =
     (Inr (Some ''thanks, alice_desktop''),
      zbot\<lparr>silent := False, me_responds := greetings,
           prev_message := ''okay, zbot'', curr_message := None\<rparr>)"
  by (simp add: zbot_def from_alice_def in_grace_def decode_body_def handle_groupchat_message_def
      addressed_def names_rx_def me_responder_response quiet_rx_def okay_rx_def
      send_to_chat_def update_message_state_def nicefrom_alice char_eval)

lemma eval_hello_active:
  "handle_groupchat_message fill 5 5 (from_alice ''Hello zbot'')
       (zbot\<lparr>me_responds := greetings\<rparr>) =
     (Inr (Some ''hi Alice_Desktop!''),
      zbot\<lparr>me_responds := greetings, prev_message := ''hello zbot'', curr_message := None\<rparr>)"
  by (simp add: zbot_def from_alice_def in_grace_def decode_body_def handle_groupchat_message_def
      addressed_def names_rx_def me_responder_response quiet_rx_def okay_rx_def enough_rx_def
      send_to_chat_def update_message_state_def nicefrom_alice greetings_def char_eval)

lemma eval_patterns:
  "re_search okay_rx True ''hello zbot'' = None"
  "re_search quiet_rx True ''hello zbot'' = None"
  "re_search enough_rx True ''hello zbot'' = None"
  "re_search quiet_rx True ''okay, zbot'' = None"
  "re_search okay_rx True ''okay, zbot'' = Some (0, 5)"
  "addressed [lit ''zbot''] ''okay, zbot''"
  "addressed [lit ''zbot''] ''hello zbot''"
  "scan_table greetings ''hello zbot'' = Some ''hi {0}!''"
  by (simp_all add: quiet_rx_def okay_rx_def enough_rx_def addressed_def names_rx_def
      greetings_def char_eval)

lemma eval_decode:
  "decode_body (Some ''Hello zbot'') = Some ''Hello zbot''"
  "decode_body (Some ''Okay, zbot'') = Some ''Okay, zbot''"
  by (simp_all add: decode_body_def)

lemma eval_fill: "fill ''hi {0}!'' ''Alice_Desktop'' = Some ''hi Alice_Desktop!''"
  by simp

lemma eval_lower:
  "lower ''Hello zbot'' = ''hello zbot''" "lower ''Okay, zbot'' = ''okay, zbot''"
  "lower ''Alice_Desktop'' = ''alice_desktop''"
  by (simp_all add: char_eval)

text \<open>
  C2, as stated, fails in its second half: \<open>okay\<close> without a bot name is not addressed
  and leaves the bot silenced; and an addressed message whose first line is \<open>quiet\<close> and
  whose second line starts with \<open>okay\<close> matches the resume pattern, but the quiet rule
  is registered first and answers, so the bot stays silenced.
\<close>

theorem silence_gate_counterexample:
  "silent (zbot\<lparr>silent := True\<rparr>) \<and> \<not> in_grace (zbot\<lparr>silent := True\<rparr>) 5 \<and>
   re_search okay_rx True ''okay'' = Some (0, 4) \<and>
   handle_groupchat_message fill 5 5 (from_alice ''okay'') (zbot\<lparr>silent := True\<rparr>) =
     (Inr None, zbot\<lparr>silent := True, prev_message := ''okay'', curr_message := None\<rparr>) \<and>
   addressed [lit ''zbot''] (''quiet'' @ [CHR 0x0A] @ ''okay zbot'') \<and>
   re_search okay_rx True (''quiet'' @ [CHR 0x0A] @ ''okay zbot'') = Some (6, 10) \<and>
   handle_groupchat_message fill 5 5 (from_alice (''quiet'' @ [CHR 0x0A] @ ''okay zbot''))
       (zbot\<lparr>silent := True\<rparr>) =
     (Inr (Some lid_text),
      zbot\<lparr>silent := True, prev_message := ''quiet'' @ [CHR 0x0A] @ ''okay zbot'',
           curr_message := None\<rparr>)"
  by (simp add: zbot_def from_alice_def in_grace_def decode_body_def handle_groupchat_message_def
      gates_def addressed_def names_rx_def me_responder_response quiet_rx_def okay_rx_def
      send_to_chat_def update_message_state_def lid_text_def char_eval)

text \<open>
  C2, amended. While the bot is silenced, a message whose text does not match the
  resume pattern gets no reply from a table: the pass sends nothing or one of the two
  fixed texts of the quiet and timeout rules, the bot stays silenced, and the outcome
  is the same whatever the two tables hold. A processed, addressed message that
  matches the resume pattern and not the quiet pattern is answered \<open>thanks, <user>\<close>
  and ends the silence (and any timeout). Once the bot is not silenced, an addressed
  message that matches no rule is answered from the first matching entry of
  \<open>me_responds\<close>.
\<close>

theorem silence_gate:
  "(silent b \<and> decode_body (body msg) = Some t \<and> re_search okay_rx True (lower t) = None \<longrightarrow>
      (fst (handle_groupchat_message fmt now0 now msg b) = Inr None \<or>
       fst (handle_groupchat_message fmt now0 now msg b) = Inr (Some lid_text) \<or>
       fst (handle_groupchat_message fmt now0 now msg b) = Inr (Some quiet_text)) \<and>
      silent (snd (handle_groupchat_message fmt now0 now msg b)) \<and>
      handle_groupchat_message fmt now0 now msg (b\<lparr>me_responds := ta, chat_responds := tb\<rparr>) =
        (fst (handle_groupchat_message fmt now0 now msg b),
         (snd (handle_groupchat_message fmt now0 now msg b))
           \<lparr>me_responds := ta, chat_responds := tb\<rparr>)) \<and>
   (silent b \<and> \<not> in_grace b now0 \<and> decode_body (body msg) = Some t \<and>
    lower (sender msg) \<notin> set (ignore_from b) \<and> addressed (my_names b) (lower t) \<and>
    re_search quiet_rx True (lower t) = None \<and> re_search okay_rx True (lower t) \<noteq> None \<longrightarrow>
      fst (handle_groupchat_message fmt now0 now msg b) =
        Inr (Some (''thanks, '' @ lower (nicefrom_of (sender msg)))) \<and>
      \<not> silent (snd (handle_groupchat_message fmt now0 now msg b)) \<and>
      timeout (snd (handle_groupchat_message fmt now0 now msg b)) = None) \<and>
   (\<not> silent b \<and> \<not> in_grace b now0 \<and> decode_body (body msg) = Some t \<and>
    lower (sender msg) \<notin> set (ignore_from b) \<and> addressed (my_names b) (lower t) \<and>
    re_search quiet_rx True (lower t) = None \<and> re_search okay_rx True (lower t) = None \<and>
    re_search enough_rx True (lower t) = None \<and>
    scan_table (me_responds b) (lower t) = Some template \<and>
    fmt template (nicefrom_of (sender msg)) = Some reply \<longrightarrow>
      fst (handle_groupchat_message fmt now0 now msg b) = Inr (Some reply))"
proof (intro conjI impI)
  assume a: "silent b \<and> decode_body (body msg) = Some t \<and>
    re_search okay_rx True (lower t) = None"
  then have s: "silent b" and d: "decode_body (body msg) = Some t"
    and o: "re_search okay_rx True (lower t) = None"
    by simp_all
  note r = silenced_pass [OF s d o, of fmt now0 now]
  show "fst (handle_groupchat_message fmt now0 now msg b) = Inr None \<or>
       fst (handle_groupchat_message fmt now0 now msg b) = Inr (Some lid_text) \<or>
       fst (handle_groupchat_message fmt now0 now msg b) = Inr (Some quiet_text)"
    by (simp add: r)
  show "silent (snd (handle_groupchat_message fmt now0 now msg b))"
    using s by (simp add: r)
  have s': "silent (b\<lparr>me_responds := ta, chat_responds := tb\<rparr>)"
    and d': "decode_body (body msg) = Some t"
    using s d by simp_all
  note r' = silenced_pass [OF s' d' o, of fmt now0 now]
  show "handle_groupchat_message fmt now0 now msg (b\<lparr>me_responds := ta, chat_responds := tb\<rparr>) =
        (fst (handle_groupchat_message fmt now0 now msg b),
         (snd (handle_groupchat_message fmt now0 now msg b))
           \<lparr>me_responds := ta, chat_responds := tb\<rparr>)"
  proof -
    let ?b' = "b\<lparr>me_responds := ta, chat_responds := tb\<rparr>"
    let ?c = "b\<lparr>startup := None, curr_message := Some (lower t)\<rparr>"
    let ?c' = "?b'\<lparr>startup := None, curr_message := Some (lower t)\<rparr>"
    let ?d = "b\<lparr>startup := None, curr_message := Some (lower t),
               timeout := Some (now + minutes 10)\<rparr>"
    let ?d' = "?b'\<lparr>startup := None, curr_message := Some (lower t),
               timeout := Some (now + minutes 10)\<rparr>"
    have u: "update_message_state ?c' =
        (update_message_state ?c)\<lparr>me_responds := ta, chat_responds := tb\<rparr>"
      "update_message_state ?d' =
        (update_message_state ?d)\<lparr>me_responds := ta, chat_responds := tb\<rparr>"
      by (simp_all add: update_message_state_def)
    consider (grace) "in_grace b now0"
      | (ignored) "\<not> in_grace b now0" "lower (sender msg) \<in> set (ignore_from b)"
      | (quiet) "\<not> in_grace b now0" "lower (sender msg) \<notin> set (ignore_from b)"
          "addressed (my_names b) (lower t) \<and> re_search quiet_rx True (lower t) \<noteq> None"
      | (enough) "\<not> in_grace b now0" "lower (sender msg) \<notin> set (ignore_from b)"
          "\<not> (addressed (my_names b) (lower t) \<and> re_search quiet_rx True (lower t) \<noteq> None)"
          "addressed (my_names b) (lower t) \<and> re_search enough_rx True (lower t) \<noteq> None"
      | (other) "\<not> in_grace b now0" "lower (sender msg) \<notin> set (ignore_from b)"
          "\<not> (addressed (my_names b) (lower t) \<and> re_search quiet_rx True (lower t) \<noteq> None)"
          "\<not> (addressed (my_names b) (lower t) \<and> re_search enough_rx True (lower t) \<noteq> None)"
      by blast
    then show ?thesis
    proof cases
      case grace
      then have "handle_groupchat_message fmt now0 now msg b = (Inr None, b)"
        "handle_groupchat_message fmt now0 now msg ?b' = (Inr None, ?b')"
        by (simp_all only: r r' in_grace_me in_grace_chat if_True)
      then show ?thesis by simp
    next
      case ignored
      then have "handle_groupchat_message fmt now0 now msg b = (Inr None, ?c)"
        "handle_groupchat_message fmt now0 now msg ?b' = (Inr None, ?c')"
        unfolding r r' by simp_all
      then show ?thesis by simp
    next
      case quiet
      then have "handle_groupchat_message fmt now0 now msg b =
          (Inr (Some lid_text), update_message_state ?c)"
        "handle_groupchat_message fmt now0 now msg ?b' =
          (Inr (Some lid_text), update_message_state ?c')"
        unfolding r r' by simp_all
      then show ?thesis by (simp only: u fst_conv snd_conv)
    next
      case enough
      then have "handle_groupchat_message fmt now0 now msg b =
          (Inr (Some quiet_text), update_message_state ?d)"
        "handle_groupchat_message fmt now0 now msg ?b' =
          (Inr (Some quiet_text), update_message_state ?d')"
        unfolding r r' by simp_all
      then show ?thesis by (simp only: u fst_conv snd_conv)
    next
      case other
      then have "handle_groupchat_message fmt now0 now msg b =
          (Inr None, update_message_state ?c)"
        "handle_groupchat_message fmt now0 now msg ?b' =
          (Inr None, update_message_state ?c')"
        unfolding r r' by simp_all
      then show ?thesis by (simp only: u fst_conv snd_conv)
    qed
  qed
next
  assume "silent b \<and> \<not> in_grace b now0 \<and> decode_body (body msg) = Some t \<and>
    lower (sender msg) \<notin> set (ignore_from b) \<and> addressed (my_names b) (lower t) \<and>
    re_search quiet_rx True (lower t) = None \<and> re_search okay_rx True (lower t) \<noteq> None"
  then have r: "handle_groupchat_message fmt now0 now msg b =
      (Inr (Some (''thanks, '' @ lower (nicefrom_of (sender msg)))),
       update_message_state (b\<lparr>startup := None, curr_message := Some (lower t),
          silent := False, timeout := None\<rparr>))"
    by (simp add: handle_processed me_responder_response)
  show "fst (handle_groupchat_message fmt now0 now msg b) =
        Inr (Some (''thanks, '' @ lower (nicefrom_of (sender msg))))"
    by (simp add: r)
  show "\<not> silent (snd (handle_groupchat_message fmt now0 now msg b))"
    by (simp add: r)
  show "timeout (snd (handle_groupchat_message fmt now0 now msg b)) = None"
    by (simp add: r)
next
  assume "\<not> silent b \<and> \<not> in_grace b now0 \<and> decode_body (body msg) = Some t \<and>
    lower (sender msg) \<notin> set (ignore_from b) \<and> addressed (my_names b) (lower t) \<and>
    re_search quiet_rx True (lower t) = None \<and> re_search okay_rx True (lower t) = None \<and>
    re_search enough_rx True (lower t) = None \<and>
    scan_table (me_responds b) (lower t) = Some template \<and>
    fmt template (nicefrom_of (sender msg)) = Some reply"
  then show "fst (handle_groupchat_message fmt now0 now msg b) = Inr (Some reply)"
    by (simp add: handle_processed me_responder_response)
qed

theorem silence_gate_witness:
  "silent (zbot\<lparr>silent := True, me_responds := greetings\<rparr>) \<and>
   decode_body (body (from_alice ''Hello zbot'')) = Some ''Hello zbot'' \<and>
   re_search okay_rx True (lower ''Hello zbot'') = None \<and>
   handle_groupchat_message fill 5 5 (from_alice ''Hello zbot'')
       (zbot\<lparr>silent := True, me_responds := greetings\<rparr>) =
     (Inr None, zbot\<lparr>silent := True, me_responds := greetings,
                     prev_message := ''hello zbot'', curr_message := None\<rparr>) \<and>
   decode_body (body (from_alice ''Okay, zbot'')) = Some ''Okay, zbot'' \<and>
   lower (sender (from_alice ''Okay, zbot'')) \<notin> set (ignore_from zbot) \<and>
   addressed (my_names zbot) (lower ''Okay, zbot'') \<and>
   re_search quiet_rx True (lower ''Okay, zbot'') = None \<and>
   re_search okay_rx True (lower ''Okay, zbot'') = Some (0, 5) \<and>
   fst (handle_groupchat_message fill 5 5 (from_alice ''Okay, zbot'')
       (zbot\<lparr>silent := True, me_responds := greetings\<rparr>)) =
     Inr (Some ''thanks, alice_desktop'') \<and>
   \<not> silent (snd (handle_groupchat_message fill 5 5 (from_alice ''Okay, zbot'')
       (zbot\<lparr>silent := True, me_responds := greetings\<rparr>))) \<and>
   re_search enough_rx True (lower ''Hello zbot'') = None \<and>
   scan_table greetings (lower ''Hello zbot'') = Some ''hi {0}!'' \<and>
   fill ''hi {0}!'' (nicefrom_of ''Alice_Desktop'') = Some ''hi Alice_Desktop!'' \<and>
   fst (handle_groupchat_message fill 5 5 (from_alice ''Hello zbot'')
       (zbot\<lparr>me_responds := greetings\<rparr>)) =
     Inr (Some ''hi Alice_Desktop!'')"
  using
    silence_gate [where b = "zbot\<lparr>silent := True, me_responds := greetings\<rparr>"
      and msg = "from_alice ''Hello zbot''" and t = "''Hello zbot''" and fmt = fill
      and ?now0.0 = 5 and now = 5 and ta = greetings and tb = "[]"]
    silence_gate [where b = "zbot\<lparr>silent := True, me_responds := greetings\<rparr>"
      and msg = "from_alice ''Okay, zbot''" and t = "''Okay, zbot''" and fmt = fill
      and ?now0.0 = 5 and now = 5]
    silence_gate [where b = "zbot\<lparr>me_responds := greetings\<rparr>"
      and msg = "from_alice ''Hello zbot''" and t = "''Hello zbot''" and fmt = fill
      and ?now0.0 = 5 and now = 5 and template = "''hi {0}!''" and reply = "''hi Alice_Desktop!''"]
  by (simp add: eval_hello_silenced eval_okay_silenced eval_hello_active eval_patterns
      eval_lower eval_decode eval_fill nicefrom_alice zbot_fields from_alice_fields in_grace_def
      del: fill.simps lit.simps)

section \<open>The timeout gate\<close>

lemma in_grace_timeout [simp]: "in_grace (b\<lparr>timeout := x\<rparr>) now0 = in_grace b now0"
  by (simp add: in_grace_def)

lemma fst_gates_free:
  "fst (handle_groupchat_message fmt now0 now msg (b\<lparr>timeout := x\<rparr>)) =
   fst (handle_groupchat_message fmt now0 now msg b)"
proof (cases "in_grace b now0")
  case True
  then show ?thesis by (simp add: handle_groupchat_message_def)
next
  case g: False
  show ?thesis
  proof (cases "decode_body (body msg)")
    case None
    with g show ?thesis by (simp add: handle_groupchat_message_def)
  next
    case (Some t)
    show ?thesis
    proof (cases "lower (sender msg) \<in> set (ignore_from b)")
      case True
      with g Some show ?thesis by (simp add: handle_groupchat_message_def Let_def)
    next
      case i: False
      have i': "lower (sender msg) \<notin> set (ignore_from (b\<lparr>timeout := x\<rparr>))"
        and g': "\<not> in_grace (b\<lparr>timeout := x\<rparr>) now0"
        using i g by simp_all
      note h = handle_processed [OF g Some i, of fmt now]
      note h' = handle_processed [OF g' Some i', of fmt now]
      show ?thesis
        unfolding h h'
        by (simp add: me_responder_response split: option.split)
    qed
  qed
qed

lemma eval_break:
  "handle_groupchat_message fill 5 7 (from_alice ''zbot take a break'') zbot =
     (Inr (Some quiet_text),
      zbot\<lparr>timeout := Some 600000007, prev_message := ''zbot take a break'',
           curr_message := None\<rparr>)"
  by (simp add: zbot_def from_alice_def in_grace_def decode_body_def handle_groupchat_message_def
      addressed_def names_rx_def me_responder_response quiet_rx_def okay_rx_def enough_rx_def
      send_to_chat_def update_message_state_def quiet_text_def minutes_def nicefrom_alice
      char_eval)

lemma eval_chatter_before:
  "handle_groupchat_message fill 600000006 600000006 (from_alice ''hello all'')
       (zbot\<lparr>timeout := Some 600000007\<rparr>) =
     (Inr None, zbot\<lparr>timeout := Some 600000007, prev_message := ''hello all'',
                     curr_message := None\<rparr>)"
  by (simp add: zbot_def from_alice_def in_grace_def decode_body_def handle_groupchat_message_def
      addressed_def names_rx_def gates_def update_message_state_def char_eval)

lemma eval_chatter_after:
  "handle_groupchat_message fill 600000007 600000007 (from_alice ''hello all'')
       (zbot\<lparr>timeout := Some 600000007\<rparr>) =
     (Inr None, zbot\<lparr>timeout := None, curr_message := Some ''hello all''\<rparr>)"
  by (simp add: zbot_def from_alice_def in_grace_def decode_body_def handle_groupchat_message_def
      addressed_def names_rx_def gates_def update_message_state_def char_eval)

lemma eval_break_patterns:
  "re_search quiet_rx True ''zbot take a break'' = None"
  "re_search okay_rx True ''zbot take a break'' = None"
  "re_search enough_rx True ''zbot take a break'' = Some (5, 17)"
  "addressed [lit ''zbot''] ''zbot take a break''"
  "\<not> addressed [lit ''zbot''] ''hello all''"
  by (simp_all add: quiet_rx_def okay_rx_def enough_rx_def addressed_def names_rx_def char_eval)

lemma eval_break_text:
  "decode_body (Some ''zbot take a break'') = Some ''zbot take a break''"
  "decode_body (Some ''hello all'') = Some ''hello all''"
  "lower ''zbot take a break'' = ''zbot take a break''"
  "lower ''hello all'' = ''hello all''"
  by (simp_all add: decode_body_def char_eval)

text \<open>
  C3, as stated, fails: a message handled after the expiry that gets a reply leaves the
  stale timeout in place, since the pass returns before the timeout gate; and an
  addressed message that holds \<open>take a break\<close> but starts with \<open>okay\<close> is answered by the
  resume rule, which is registered earlier, so no timeout is set.
\<close>

theorem timeout_gate_counterexample:
  "timeout (zbot\<lparr>timeout := Some 100\<rparr>) = Some 100 \<and> (100::int) \<le> 200 \<and>
   handle_groupchat_message fill 200 200 (from_alice ''quiet zbot'') (zbot\<lparr>timeout := Some 100\<rparr>) =
     (Inr (Some lid_text),
      zbot\<lparr>timeout := Some 100, silent := True, prev_message := ''quiet zbot'',
           curr_message := None\<rparr>) \<and>
   addressed [lit ''zbot''] ''okay, take a break zbot'' \<and>
   re_search enough_rx True ''okay, take a break zbot'' = Some (6, 18) \<and>
   handle_groupchat_message fill 5 5 (from_alice ''okay, take a break zbot'') zbot =
     (Inr (Some ''thanks, alice_desktop''),
      zbot\<lparr>prev_message := ''okay, take a break zbot'', curr_message := None\<rparr>)"
  by (simp add: zbot_def from_alice_def in_grace_def decode_body_def handle_groupchat_message_def
      addressed_def names_rx_def me_responder_response quiet_rx_def okay_rx_def enough_rx_def
      send_to_chat_def update_message_state_def lid_text_def nicefrom_alice char_eval)

text \<open>
  C3, amended. A processed, addressed message that matches the timeout pattern and
  neither the quiet nor the resume pattern is answered \<open>i'm gonna stay quiet for a
  bit.\<close> and sets the expiry to ten minutes after the clock reading. A message that is
  not addressed and is handled before the expiry gets no reply and leaves the expiry
  in place. A processed message that gets no reply while the bot is not silenced, at
  or after the expiry, clears the timeout. The reply of a pass never depends on the
  timeout, so addressed responses run throughout.
\<close>

theorem timeout_gate:
  "(\<not> in_grace b now0 \<and> decode_body (body msg) = Some t \<and>
    lower (sender msg) \<notin> set (ignore_from b) \<and> addressed (my_names b) (lower t) \<and>
    re_search quiet_rx True (lower t) = None \<and> re_search okay_rx True (lower t) = None \<and>
    re_search enough_rx True (lower t) \<noteq> None \<longrightarrow>
      fst (handle_groupchat_message fmt now0 now msg b) = Inr (Some quiet_text) \<and>
      timeout (snd (handle_groupchat_message fmt now0 now msg b)) = Some (now + minutes 10)) \<and>
   (decode_body (body msg) = Some t \<and> \<not> addressed (my_names b) (lower t) \<and>
    timeout b = Some e \<and> now < e \<longrightarrow>
      fst (handle_groupchat_message fmt now0 now msg b) = Inr None \<and>
      timeout (snd (handle_groupchat_message fmt now0 now msg b)) = Some e) \<and>
   (\<not> in_grace b now0 \<and> decode_body (body msg) = Some t \<and>
    lower (sender msg) \<notin> set (ignore_from b) \<and> \<not> silent b \<and>
    timeout b = Some e \<and> e \<le> now \<and>
    fst (handle_groupchat_message fmt now0 now msg b) = Inr None \<longrightarrow>
      timeout (snd (handle_groupchat_message fmt now0 now msg b)) = None) \<and>
   fst (handle_groupchat_message fmt now0 now msg (b\<lparr>timeout := x\<rparr>)) =
     fst (handle_groupchat_message fmt now0 now msg b)"
proof (intro conjI impI)
  assume "\<not> in_grace b now0 \<and> decode_body (body msg) = Some t \<and>
    lower (sender msg) \<notin> set (ignore_from b) \<and> addressed (my_names b) (lower t) \<and>
    re_search quiet_rx True (lower t) = None \<and> re_search okay_rx True (lower t) = None \<and>
    re_search enough_rx True (lower t) \<noteq> None"
  then have r: "handle_groupchat_message fmt now0 now msg b =
      (Inr (Some quiet_text),
       update_message_state (b\<lparr>startup := None, curr_message := Some (lower t),
          timeout := Some (now + minutes 10)\<rparr>))"
    by (simp add: handle_processed me_responder_response quiet_text_def)
  show "fst (handle_groupchat_message fmt now0 now msg b) = Inr (Some quiet_text)"
    by (simp add: r)
  show "timeout (snd (handle_groupchat_message fmt now0 now msg b)) = Some (now + minutes 10)"
    by (simp add: r)
next
  assume a: "decode_body (body msg) = Some t \<and> \<not> addressed (my_names b) (lower t) \<and>
    timeout b = Some e \<and> now < e"
  then show "fst (handle_groupchat_message fmt now0 now msg b) = Inr None"
    by (simp add: handle_groupchat_message_def Let_def)
  from a show "timeout (snd (handle_groupchat_message fmt now0 now msg b)) = Some e"
    by (simp add: handle_groupchat_message_def Let_def gates_def)
next
  assume a: "\<not> in_grace b now0 \<and> decode_body (body msg) = Some t \<and>
    lower (sender msg) \<notin> set (ignore_from b) \<and> \<not> silent b \<and>
    timeout b = Some e \<and> e \<le> now \<and>
    fst (handle_groupchat_message fmt now0 now msg b) = Inr None"
  then have g: "\<not> in_grace b now0" and d: "decode_body (body msg) = Some t"
    and i: "lower (sender msg) \<notin> set (ignore_from b)" and s: "\<not> silent b"
    and t: "timeout b = Some e" "e \<le> now"
    and n: "fst (handle_groupchat_message fmt now0 now msg b) = Inr None"
    by simp_all
  note h = handle_processed [OF g d i, of fmt now]
  let ?c = "b\<lparr>startup := None, curr_message := Some (lower t)\<rparr>"
  have gt: "timeout (gates now ?c) = None"
    using s t by (simp add: gates_def)
  show "timeout (snd (handle_groupchat_message fmt now0 now msg b)) = None"
  proof (cases "addressed (my_names b) (lower t)")
    case False
    then show ?thesis using gt by (simp add: h)
  next
    case True
    have none: "get_response me_responder now ?c (lower t) (nicefrom_of (sender msg)) = (None, ?c)"
      using n True
      by (simp add: h me_responder_response lid_text_def quiet_text_def split: if_splits)
    show ?thesis
    proof (cases "scan_table (me_responds b) (lower t)")
      case None
      with True none s gt show ?thesis by (simp add: h)
    next
      case (Some response)
      with True none s n show ?thesis
        by (cases "fmt response (nicefrom_of (sender msg))") (simp_all add: h)
    qed
  qed
next
  show "fst (handle_groupchat_message fmt now0 now msg (b\<lparr>timeout := x\<rparr>)) =
     fst (handle_groupchat_message fmt now0 now msg b)"
    by (rule fst_gates_free)
qed

theorem timeout_gate_witness:
  "\<not> in_grace zbot 5 \<and>
   decode_body (body (from_alice ''zbot take a break'')) = Some ''zbot take a break'' \<and>
   lower (sender (from_alice ''zbot take a break'')) \<notin> set (ignore_from zbot) \<and>
   addressed (my_names zbot) (lower ''zbot take a break'') \<and>
   re_search quiet_rx True (lower ''zbot take a break'') = None \<and>
   re_search okay_rx True (lower ''zbot take a break'') = None \<and>
   re_search enough_rx True (lower ''zbot take a break'') = Some (5, 17) \<and>
   fst (handle_groupchat_message fill 5 7 (from_alice ''zbot take a break'') zbot)
     = Inr (Some quiet_text) \<and>
   timeout (snd (handle_groupchat_message fill 5 7 (from_alice ''zbot take a break'') zbot))
     = Some (7 + minutes 10) \<and>
   \<not> addressed (my_names (zbot\<lparr>timeout := Some 600000007\<rparr>)) (lower ''hello all'') \<and>
   (600000006::int) < 600000007 \<and>
   fst (handle_groupchat_message fill 600000006 600000006 (from_alice ''hello all'')
       (zbot\<lparr>timeout := Some 600000007\<rparr>)) = Inr None \<and>
   timeout (snd (handle_groupchat_message fill 600000006 600000006 (from_alice ''hello all'')
       (zbot\<lparr>timeout := Some 600000007\<rparr>))) = Some 600000007 \<and>
   \<not> silent (zbot\<lparr>timeout := Some 600000007\<rparr>) \<and> (600000007::int) \<le> 600000007 \<and>
   fst (handle_groupchat_message fill 600000007 600000007 (from_alice ''hello all'')
       (zbot\<lparr>timeout := Some 600000007\<rparr>)) = Inr None \<and>
   timeout (snd (handle_groupchat_message fill 600000007 600000007 (from_alice ''hello all'')
       (zbot\<lparr>timeout := Some 600000007\<rparr>))) = None"
  using
    timeout_gate [where b = zbot and msg = "from_alice ''zbot take a break''"
      and t = "''zbot take a break''" and fmt = fill and ?now0.0 = 5 and now = 7]
    timeout_gate [where b = "zbot\<lparr>timeout := Some 600000007\<rparr>"
      and msg = "from_alice ''hello all''" and t = "''hello all''" and fmt = fill
      and ?now0.0 = 600000006 and now = 600000006 and e = 600000007]
    timeout_gate [where b = "zbot\<lparr>timeout := Some 600000007\<rparr>"
      and msg = "from_alice ''hello all''" and t = "''hello all''" and fmt = fill
      and ?now0.0 = 600000007 and now = 600000007 and e = 600000007]
  by (simp add: eval_break eval_chatter_before eval_chatter_after eval_break_patterns
      eval_break_text zbot_fields from_alice_fields eval_lower in_grace_def minutes_def
      del: lit.simps)

end
